theory Spec2Isabelle
  imports Main "HOL-Library.Word" "HOL-Library.Char_ord" "HOL-Library.List_Lexorder"
begin

section \<open>Data model\<close>

text \<open>
  The plugin (plugins/anthropic/claude.go) translates between the request and response
  types of package \<open>ai\<close> (genkit) and those of the provider's SDK. Go strings are byte
  strings (\<open>string\<close>), a pointer that the code dereferences is an \<open>option\<close> (\<open>None\<close> is
  \<open>nil\<close>), Go's \<open>int\<close> and \<open>int64\<close> are 64-bit words (a 64-bit platform, where the
  conversions \<open>int64(x)\<close> and \<open>int(x)\<close> change nothing), and a \<open>float64\<close> is its IEEE-754
  bit pattern: the code copies floats and never computes with them. The functions take
  the request and the response themselves where the source takes a pointer to them.
\<close>

type_synonym int64 = "64 word"
type_synonym float64 = "64 word"

text \<open>
  \<open>ai.PartKind\<close>: the four kinds the converter's switch names, \<open>PartData\<close>, and any
  further value of the underlying integer type.
\<close>

datatype PartKind =
    PartText
  | PartMedia
  | PartData
  | PartToolRequest
  | PartToolResponse
  | PartKindOther nat

text \<open>
  The errors of the translation layer. The first two are the values built with
  \<open>fmt.Errorf\<close> in \<open>convertRequest\<close> and \<open>convertMessages\<close> (the \<open>%q\<close> argument is kept
  as the constructor's argument), the third is the error of \<open>extractDataFromBase64URL\<close>,
  the fourth the one of \<open>convertRole\<close>. \<open>NilDereference\<close> is the run-time panic of
  reading a field through a nil pointer.
\<close>

datatype error =
    UnsupportedOutputFormat string
  | UnsupportedPartKind PartKind
  | MalformedDataURL
  | UnsupportedRole string
  | NilDereference

text \<open>
  A value of Go's \<open>any\<close>, as the code observes it: nil (also a nil map or slice held in
  an interface), booleans, integers, strings, slices and maps with string keys.
  \<open>VOther\<close> stands for every other value (a floating-point number, a struct, a channel,
  a function): the code only hands such a value to \<open>json.Marshal\<close>, so it is given by
  what the encoder makes of it, its bytes or \<open>None\<close> where the encoder returns an error
  (a NaN, an infinity, a channel, a function); the type assertion to \<open>string\<close> fails on
  it. A map is an association list read with \<open>map_of\<close>; a field of type
  \<open>map[string]any\<close> is an \<open>option\<close>, \<open>None\<close> the nil map.
\<close>

datatype go_value =
    VNil
  | VBool bool
  | VInt int
  | VString string
  | VSlice "go_value list"
  | VMap "(string \<times> go_value) list"
  | VOther "string option"

type_synonym go_map = "(string \<times> go_value) list option"

definition map_index :: "go_map \<Rightarrow> string \<Rightarrow> go_value option" where
  \<comment> \<open>\<open>m[k]\<close> with the comma-ok result; indexing a nil map finds nothing\<close>
  "map_index m k = (case m of None \<Rightarrow> None | Some kvs \<Rightarrow> map_of kvs k)"

definition as_string :: "go_value option \<Rightarrow> string option" where
  \<comment> \<open>the type assertion \<open>v.(string)\<close> on the result of an index expression\<close>
  "as_string v = (case v of Some (VString s) \<Rightarrow> Some s | _ \<Rightarrow> None)"

record ToolRequest =
  req_Name :: string
  req_Input :: go_map

record ToolResponse =
  resp_Name :: string
  resp_Output :: go_map

record Part =
  Kind :: PartKind
  ContentType :: string
  Text :: string
  ToolRequest :: "ToolRequest option"
  ToolResponse :: "ToolResponse option"

text \<open>\<open>ai.Role\<close> is a string type; these are its constants.\<close>

definition RoleUser :: string where "RoleUser = ''user''"
definition RoleModel :: string where "RoleModel = ''model''"
definition RoleSystem :: string where "RoleSystem = ''system''"
definition RoleTool :: string where "RoleTool = ''tool''"

record Message =
  Role :: string
  Content :: "Part option list"

record ToolDefinition =
  tool_Name :: string
  tool_Description :: string
  tool_InputSchema :: go_map
  tool_OutputSchema :: go_map

text \<open>\<open>ai.OutputFormat\<close> is a string type.\<close>

definition OutputFormatJSON :: string where "OutputFormatJSON = ''json''"
definition OutputFormatText :: string where "OutputFormatText = ''text''"
definition OutputFormatMedia :: string where "OutputFormatMedia = ''media''"

record GenerateRequestOutput =
  Format :: string
  Schema :: go_map

record GenerationCommonConfig =
  MaxOutputTokens :: int64
  StopSequences :: "string list"
  Temperature :: float64
  TopK :: int64
  TopP :: float64
  Version :: string

datatype ToolChoice =
    ToolChoiceNil
  | ToolChoiceAuto
  | ToolChoiceAny
  | ToolChoiceTool string

record MetadataParam =
  UserID :: "string option"

text \<open>
  \<open>GenerationAnthropicConfig\<close> embeds the common configuration and adds the tool-choice
  policy and the metadata.
\<close>

record GenerationAnthropicConfig =
  Common :: GenerationCommonConfig
  ToolChoiceParam :: ToolChoice
  Metadata :: MetadataParam

text \<open>
  \<open>GenerateRequest.Config\<close> has type \<open>any\<close>: one value of one dynamic type. The two
  type assertions of \<open>convertRequest\<close> tell a pointer to each configuration type from
  everything else; the pointer itself may be nil.
\<close>

datatype Config =
    ConfigNil
  | ConfigCommon "GenerationCommonConfig option"
  | ConfigAnthropic "GenerationAnthropicConfig option"
  | ConfigOther go_value

record GenerateRequest =
  Messages :: "Message option list"
  Tools :: "ToolDefinition option list"
  Output :: "GenerateRequestOutput option"
  Config :: Config

subsection \<open>Provider side\<close>

datatype MessageParamRole = MessageParamRoleUser | MessageParamRoleAssistant

datatype MessageParamContent =
    TextBlock string
  | ImageBlockBase64 string string
  | ToolUseBlock string string go_map
  | ToolResultBlock string string bool

record TextBlockParam =
  block_Text :: string

record MessageParam =
  param_Role :: MessageParamRole
  param_Content :: "MessageParamContent list"

record ToolParam =
  tp_Name :: string
  tp_InputSchema :: go_map
  tp_Description :: string

text \<open>
  \<open>anthropic.MessageNewParams\<close>: every field is a \<open>param.Field\<close>, absent (\<open>None\<close>) until
  \<open>anthropic.F\<close> sets it.
\<close>

record MessageNewParams =
  p_MaxTokens :: "int64 option"
  p_Messages :: "MessageParam list option"
  p_Model :: "string option"
  p_Metadata :: "MetadataParam option"
  p_StopSequences :: "string list option"
  p_System :: "TextBlockParam list option"
  p_Temperature :: "float64 option"
  p_ToolChoice :: "ToolChoice option"
  p_Tools :: "ToolParam list option"
  p_TopK :: "int64 option"
  p_TopP :: "float64 option"

text \<open>\<open>anthropic.MessageStopReason\<close> is a string type.\<close>

definition MessageStopReasonEndTurn :: string where
  "MessageStopReasonEndTurn = ''end_turn''"
definition MessageStopReasonMaxTokens :: string where
  "MessageStopReasonMaxTokens = ''max_tokens''"
definition MessageStopReasonStopSequence :: string where
  "MessageStopReasonStopSequence = ''stop_sequence''"
definition MessageStopReasonToolUse :: string where
  "MessageStopReasonToolUse = ''tool_use''"

record ContentBlock =
  cb_Text :: string
  cb_Type :: string

record Usage =
  usage_InputTokens :: int64
  usage_OutputTokens :: int64

record AnthropicMessage =
  msg_Content :: "ContentBlock list"
  msg_StopReason :: string
  msg_Usage :: Usage

subsection \<open>Agnostic response\<close>

datatype FinishReason =
    FinishReasonStop
  | FinishReasonLength
  | FinishReasonBlocked
  | FinishReasonOther
  | FinishReasonUnknown

record Candidate =
  cand_FinishReason :: FinishReason
  cand_Message :: Message

record GenerationUsage =
  InputTokens :: int64
  OutputTokens :: int64
  TotalTokens :: int64

record GenerateResponse =
  Candidates :: "Candidate list"
  resp_Usage :: GenerationUsage
  Request :: "GenerateRequest option"

section \<open>Base64 data-URL extractor\<close>

text \<open>
  \<open>extractDataFromBase64URL\<close> matches the regular expression
  \<^verbatim>\<open>^data:([^;]+);base64,(.+)$\<close> with \<open>FindStringSubmatch\<close>. The expression is compiled
  with Go's default flags: \<open>^\<close> and \<open>$\<close> stand for the beginning and the end of the
  text, a negated class matches every character but the ones it lists, and \<open>.\<close>
  matches every character but the line feed. Both groups are greedy repetitions of a
  one-character class, so the matcher below tries the candidate lengths of a group from
  the longest run down to one character and takes the first that lets the rest match.
  The classes are decided on ASCII characters, so matching bytes is matching runes.
\<close>

definition strip_prefix :: "string \<Rightarrow> string \<Rightarrow> string option" where
  "strip_prefix pre s =
     (if take (length pre) s = pre then Some (drop (length pre) s) else None)"

definition plus_splits :: "(char \<Rightarrow> bool) \<Rightarrow> string \<Rightarrow> (string \<times> string) list" where
  \<comment> \<open>the ways \<open>cls+\<close> can match at the start of \<open>s\<close>, longest first, each with the rest\<close>
  "plus_splits cls s =
     map (\<lambda>k. (take k s, drop k s)) (rev [1..<Suc (length (takeWhile cls s))])"

fun first_success :: "('a \<Rightarrow> 'b option) \<Rightarrow> 'a list \<Rightarrow> 'b option" where
  "first_success f [] = None"
| "first_success f (x # xs) =
     (case f x of Some y \<Rightarrow> Some y | None \<Rightarrow> first_success f xs)"

definition not_semicolon :: "char \<Rightarrow> bool" where
  \<comment> \<open>the class \<^verbatim>\<open>[^;]\<close>\<close>
  "not_semicolon c \<longleftrightarrow> c \<noteq> CHR '';''"

definition any_char_no_NL :: "char \<Rightarrow> bool" where
  \<comment> \<open>the class \<^verbatim>\<open>.\<close> without the flag \<open>s\<close>\<close>
  "any_char_no_NL c \<longleftrightarrow> c \<noteq> CHR 0x0A"

definition match_group2 :: "string \<Rightarrow> string option" where
  \<comment> \<open>\<^verbatim>\<open>(.+)$\<close>\<close>
  "match_group2 s =
     first_success (\<lambda>(p, rest). if rest = [] then Some p else None)
       (plus_splits any_char_no_NL s)"

definition match_tail :: "string \<times> string \<Rightarrow> (string \<times> string) option" where
  \<comment> \<open>\<^verbatim>\<open>;base64,(.+)$\<close> after a candidate for the first group\<close>
  "match_tail = (\<lambda>(m, rest).
     case strip_prefix '';base64,'' rest of
       None \<Rightarrow> None
     | Some s \<Rightarrow> (case match_group2 s of None \<Rightarrow> None | Some p \<Rightarrow> Some (m, p)))"

definition FindStringSubmatch :: "string \<Rightarrow> (string \<times> string \<times> string) option" where
  \<comment> \<open>\<open>None\<close> is the nil slice; otherwise the whole match, group 1 and group 2\<close>
  "FindStringSubmatch url =
     (case strip_prefix ''data:'' url of
        None \<Rightarrow> None
      | Some r \<Rightarrow>
          (case first_success match_tail (plus_splits not_semicolon r) of
             None \<Rightarrow> None
           | Some (m, p) \<Rightarrow> Some (url, m, p)))"

definition extractDataFromBase64URL :: "string \<Rightarrow> error + (string \<times> string)" where
  "extractDataFromBase64URL url =
     (case FindStringSubmatch url of
        None \<Rightarrow> Inl MalformedDataURL
      | Some (whole, g1, g2) \<Rightarrow> Inr (g2, g1))"

text \<open>The shape the specification gives a data URL: \<open>data:<media-type>;base64,<payload>\<close>.\<close>

definition data_url :: "string \<Rightarrow> string \<Rightarrow> string" where
  "data_url media_type payload = ''data:'' @ media_type @ '';base64,'' @ payload"

section \<open>Tool-response encoder\<close>

text \<open>
  \<open>json.Marshal\<close> on the values of \<open>go_value\<close>, as \<open>encoding/json\<close> writes them: map keys
  in byte order, no white space, integers in decimal, strings quoted by the encoder's
  string routine with HTML escaping on (Go 1.22 and later). That routine writes the
  short escapes for the quote, the backslash, backspace, form feed, line feed, carriage
  return and tab, \<open>\u00XX\<close> for the other control characters and for \<open><\<close>, \<open>>\<close> and
  \<open>&\<close>, \<open>\ufffd\<close> for a byte that does not start a valid UTF-8 sequence, \<open>\u2028\<close> and
  \<open>\u2029\<close> for these two code points, and copies every other byte. The keys of a map
  are distinct. A value the encoder refuses makes the whole call fail (\<open>None\<close>).
\<close>

definition digit_char :: "nat \<Rightarrow> char" where
  "digit_char d = char_of (48 + d)"

function show_nat :: "nat \<Rightarrow> string" where
  "show_nat n =
     (if n < 10 then [digit_char n] else show_nat (n div 10) @ [digit_char (n mod 10)])"
  by pat_completeness auto
termination
  by (relation "measure id") auto

definition show_int :: "int \<Rightarrow> string" where
  "show_int i = (if i < 0 then CHR ''-'' # show_nat (nat (- i)) else show_nat (nat i))"

definition hex_char :: "nat \<Rightarrow> char" where
  "hex_char d = (if d < 10 then char_of (48 + d) else char_of (87 + d))"

definition escape_char :: "char \<Rightarrow> string" where
  \<comment> \<open>a byte below 0x80\<close>
  "escape_char c =
     (if c = CHR 0x22 then [CHR 0x5C, CHR 0x22]
      else if c = CHR 0x5C then [CHR 0x5C, CHR 0x5C]
      else if c = CHR 0x08 then [CHR 0x5C, CHR ''b'']
      else if c = CHR 0x0C then [CHR 0x5C, CHR ''f'']
      else if c = CHR 0x0A then [CHR 0x5C, CHR ''n'']
      else if c = CHR 0x0D then [CHR 0x5C, CHR ''r'']
      else if c = CHR 0x09 then [CHR 0x5C, CHR ''t'']
      else if of_char c < (0x20 :: nat) \<or> c = CHR ''<'' \<or> c = CHR ''>'' \<or> c = CHR ''&''
        then [CHR 0x5C, CHR ''u'', CHR ''0'', CHR ''0'',
              hex_char (of_char c div 16), hex_char (of_char c mod 16)]
      else [c])"

definition byte_in :: "nat \<Rightarrow> nat \<Rightarrow> string \<Rightarrow> nat \<Rightarrow> bool" where
  \<comment> \<open>the string has a byte at index \<open>i\<close>, and it lies between \<open>lo\<close> and \<open>hi\<close>\<close>
  "byte_in lo hi s i \<longleftrightarrow>
     i < length s \<and> lo \<le> (of_char (s ! i) :: nat) \<and> (of_char (s ! i) :: nat) \<le> hi"

definition utf8_size :: "string \<Rightarrow> nat" where
  \<comment> \<open>\<open>utf8.DecodeRuneInString\<close>: the length of the valid sequence the string starts
      with, 0 where the decoder returns \<open>(RuneError, 1)\<close>\<close>
  "utf8_size s =
     (if byte_in 0xC2 0xDF s 0 then (if byte_in 0x80 0xBF s 1 then 2 else 0)
      else if byte_in 0xE0 0xE0 s 0
        then (if byte_in 0xA0 0xBF s 1 \<and> byte_in 0x80 0xBF s 2 then 3 else 0)
      else if byte_in 0xED 0xED s 0
        then (if byte_in 0x80 0x9F s 1 \<and> byte_in 0x80 0xBF s 2 then 3 else 0)
      else if byte_in 0xE1 0xEF s 0
        then (if byte_in 0x80 0xBF s 1 \<and> byte_in 0x80 0xBF s 2 then 3 else 0)
      else if byte_in 0xF0 0xF0 s 0
        then (if byte_in 0x90 0xBF s 1 \<and> byte_in 0x80 0xBF s 2 \<and> byte_in 0x80 0xBF s 3
              then 4 else 0)
      else if byte_in 0xF1 0xF3 s 0
        then (if byte_in 0x80 0xBF s 1 \<and> byte_in 0x80 0xBF s 2 \<and> byte_in 0x80 0xBF s 3
              then 4 else 0)
      else if byte_in 0xF4 0xF4 s 0
        then (if byte_in 0x80 0x8F s 1 \<and> byte_in 0x80 0xBF s 2 \<and> byte_in 0x80 0xBF s 3
              then 4 else 0)
      else 0)"

function escape_string :: "string \<Rightarrow> string" where
  "escape_string [] = []"
| "escape_string (c # cs) =
     (if (of_char c :: nat) < 0x80 then escape_char c @ escape_string cs
      else if utf8_size (c # cs) = 0
        then [CHR 0x5C, CHR ''u'', CHR ''f'', CHR ''f'', CHR ''f'', CHR ''d''] @ escape_string cs
      else if take 3 (c # cs) = [CHR 0xE2, CHR 0x80, CHR 0xA8]
        then [CHR 0x5C, CHR ''u'', CHR ''2'', CHR ''0'', CHR ''2'', CHR ''8'']
             @ escape_string (drop 2 cs)
      else if take 3 (c # cs) = [CHR 0xE2, CHR 0x80, CHR 0xA9]
        then [CHR 0x5C, CHR ''u'', CHR ''2'', CHR ''0'', CHR ''2'', CHR ''9'']
             @ escape_string (drop 2 cs)
      else take (utf8_size (c # cs)) (c # cs)
           @ escape_string (drop (utf8_size (c # cs) - 1) cs))"
  by pat_completeness auto
termination
  by (relation "measure length") auto

definition quote_string :: "string \<Rightarrow> string" where
  "quote_string s = [CHR 0x22] @ escape_string s @ [CHR 0x22]"

fun join_with :: "string \<Rightarrow> string list \<Rightarrow> string" where
  "join_with sep [] = []"
| "join_with sep [x] = x"
| "join_with sep (x # y # ys) = x @ sep @ join_with sep (y # ys)"

fun all_or_none :: "'a option list \<Rightarrow> 'a list option" where
  "all_or_none [] = Some []"
| "all_or_none (None # xs) = None"
| "all_or_none (Some x # xs) =
     (case all_or_none xs of None \<Rightarrow> None | Some ys \<Rightarrow> Some (x # ys))"

fun marshal_value :: "go_value \<Rightarrow> string option" where
  "marshal_value VNil = Some ''null''"
| "marshal_value (VBool b) = Some (if b then ''true'' else ''false'')"
| "marshal_value (VInt i) = Some (show_int i)"
| "marshal_value (VString s) = Some (quote_string s)"
| "marshal_value (VSlice xs) =
     (case all_or_none (map marshal_value xs) of
        None \<Rightarrow> None
      | Some js \<Rightarrow> Some (''['' @ join_with '','' js @ '']''))"
| "marshal_value (VMap kvs) =
     (case all_or_none
             (map (\<lambda>kv. map_option (\<lambda>j. quote_string (fst kv) @ '':'' @ j)
                          (marshal_value (snd kv)))
                  (sort_key fst kvs)) of
        None \<Rightarrow> None
      | Some js \<Rightarrow> Some (''{'' @ join_with '','' js @ ''}''))"
| "marshal_value (VOther encoded) = encoded"

definition json_Marshal :: "go_map \<Rightarrow> string option" where
  "json_Marshal m = (case m of None \<Rightarrow> Some ''null'' | Some kvs \<Rightarrow> marshal_value (VMap kvs))"

text \<open>
  \<open>convertToolResponse\<close>. \<open>fmt.Sprintf\<close> with \<open>%s\<close> copies its string arguments into
  the format unchanged. \<open>text_fallback\<close> is the code after the first \<open>if\<close>.
\<close>

definition image_block :: "string \<Rightarrow> string \<Rightarrow> string" where
  "image_block base64Data contentType =
     ''{\"type\":\"image\",\"source\":{\"type\":\"base64\",\"data\":\"'' @ base64Data @
     ''\",\"media_type\":\"'' @ contentType @ ''\"}}''"

definition text_fallback :: "go_map \<Rightarrow> string" where
  "text_fallback output =
     (case json_Marshal output of
        Some bytes \<Rightarrow> ''{\"type\":\"text\",\"text\":'' @ bytes @ ''}''
      | None \<Rightarrow> [])"

definition convertToolResponse :: "ToolResponse \<Rightarrow> string" where
  "convertToolResponse response =
     (case as_string (map_index (resp_Output response) ''url'') of
        Some url \<Rightarrow>
          (case extractDataFromBase64URL url of
             Inr (base64Data, contentType) \<Rightarrow>
               image_block base64Data
                 (case as_string (map_index (resp_Output response) ''contentType'') of
                    Some mediaContentType \<Rightarrow> mediaContentType
                  | None \<Rightarrow> contentType)
           | Inl err \<Rightarrow> text_fallback (resp_Output response))
      | None \<Rightarrow> text_fallback (resp_Output response))"

section \<open>Outbound message converter\<close>

text \<open>
  One step of the inner loop of \<open>convertMessages\<close>: the block a part is converted to,
  the error of the \<open>default\<close> branch, or the panic of reading through a nil pointer
  (the part itself, its tool request or its tool response).
\<close>

definition convertPart :: "Part option \<Rightarrow> error + MessageParamContent" where
  "convertPart p =
     (case p of
        None \<Rightarrow> Inl NilDereference
      | Some part \<Rightarrow>
          (case Kind part of
             PartText \<Rightarrow> Inr (TextBlock (Text part))
           | PartMedia \<Rightarrow> Inr (ImageBlockBase64 (ContentType part) (Text part))
           | PartToolRequest \<Rightarrow>
               (case ToolRequest part of
                  None \<Rightarrow> Inl NilDereference
                | Some r \<Rightarrow> Inr (ToolUseBlock (req_Name r) (req_Name r) (req_Input r)))
           | PartToolResponse \<Rightarrow>
               (case ToolResponse part of
                  None \<Rightarrow> Inl NilDereference
                | Some r \<Rightarrow> Inr (ToolResultBlock (resp_Name r) (convertToolResponse r) False))
           | _ \<Rightarrow> Inl (UnsupportedPartKind (Kind part))))"

fun convertContent ::
  "Part option list \<Rightarrow> MessageParamContent list \<Rightarrow> error + MessageParamContent list" where
  "convertContent [] content = Inr content"
| "convertContent (part # parts) content =
     (case convertPart part of
        Inl err \<Rightarrow> Inl err
      | Inr block \<Rightarrow> convertContent parts (content @ [block]))"

text \<open>
  The outer loop. The source builds \<open>content\<close> for each message and then goes on to the
  next message: nothing is appended to \<open>system\<close> or to \<open>user\<close>, and \<open>convertRole\<close> is
  not called.
\<close>

fun convertMessages_loop ::
  "Message option list \<Rightarrow> TextBlockParam list \<Rightarrow> MessageParam list
     \<Rightarrow> error + (TextBlockParam list \<times> MessageParam list)" where
  "convertMessages_loop [] system user = Inr (system, user)"
| "convertMessages_loop (None # msgs) system user = Inl NilDereference"
| "convertMessages_loop (Some msg # msgs) system user =
     (case convertContent (Content msg) [] of
        Inl err \<Rightarrow> Inl err
      | Inr content \<Rightarrow> convertMessages_loop msgs system user)"

definition convertMessages ::
  "Message option list \<Rightarrow> error + (TextBlockParam list \<times> MessageParam list)" where
  "convertMessages messages = convertMessages_loop messages [] []"

definition convertRole :: "string \<Rightarrow> error + MessageParamRole" where
  "convertRole role =
     (if role = RoleUser then Inr MessageParamRoleUser
      else if role = RoleSystem then Inr MessageParamRoleAssistant
      else if role = RoleModel then Inr MessageParamRoleAssistant
      else Inl (UnsupportedRole role))"

fun convertTools_loop :: "ToolDefinition option list \<Rightarrow> ToolParam list \<Rightarrow> error + ToolParam list" where
  "convertTools_loop [] res = Inr res"
| "convertTools_loop (None # tools) res = Inl NilDereference"
| "convertTools_loop (Some t # tools) res =
     convertTools_loop tools
       (res @ [\<lparr>tp_Name = tool_Name t, tp_InputSchema = tool_InputSchema t,
                 tp_Description = tool_Description t\<rparr>])"

definition convertTools :: "ToolDefinition option list \<Rightarrow> error + ToolParam list" where
  "convertTools tools = convertTools_loop tools []"

text \<open>
  The vocabulary of the claims about parts: the kinds the specification calls
  supported, the parts of a conversation in the order the converter visits them, and
  the data-model invariant that every pointer is set and that a tool-request or
  tool-response part carries its payload.
\<close>

definition supported_kind :: "PartKind \<Rightarrow> bool" where
  "supported_kind k \<longleftrightarrow> k = PartText \<or> k = PartMedia \<or> k = PartToolRequest \<or> k = PartToolResponse"

definition populated :: "Part option \<Rightarrow> bool" where
  "populated p =
     (case p of
        None \<Rightarrow> False
      | Some part \<Rightarrow>
          (Kind part = PartToolRequest \<longrightarrow> ToolRequest part \<noteq> None) \<and>
          (Kind part = PartToolResponse \<longrightarrow> ToolResponse part \<noteq> None))"

fun parts_of :: "Message option list \<Rightarrow> Part option list" where
  "parts_of [] = []"
| "parts_of (None # msgs) = parts_of msgs"
| "parts_of (Some msg # msgs) = Content msg @ parts_of msgs"

definition part_kind :: "Part option \<Rightarrow> PartKind option" where
  "part_kind p = map_option Kind p"

section \<open>Outbound request assembler\<close>

definition empty_params :: MessageNewParams where
  \<comment> \<open>the zero value \<open>anthropic.MessageNewParams{}\<close>\<close>
  "empty_params =
     \<lparr>p_MaxTokens = None, p_Messages = None, p_Model = None, p_Metadata = None,
      p_StopSequences = None, p_System = None, p_Temperature = None, p_ToolChoice = None,
      p_Tools = None, p_TopK = None, p_TopP = None\<rparr>"

definition set_common :: "GenerationCommonConfig \<Rightarrow> MessageNewParams \<Rightarrow> MessageNewParams" where
  \<comment> \<open>the five assignments both configuration branches make\<close>
  "set_common c params =
     params\<lparr>p_MaxTokens := Some (MaxOutputTokens c), p_TopK := Some (TopK c),
            p_TopP := Some (TopP c), p_Temperature := Some (Temperature c),
            p_StopSequences := Some (StopSequences c)\<rparr>"

definition apply_common_config :: "Config \<Rightarrow> MessageNewParams \<Rightarrow> MessageNewParams" where
  \<comment> \<open>\<open>if c, ok := input.Config.(*ai.GenerationCommonConfig); ok && c != nil\<close>\<close>
  "apply_common_config cfg params =
     (case cfg of ConfigCommon (Some c) \<Rightarrow> set_common c params | _ \<Rightarrow> params)"

definition apply_anthropic_config :: "Config \<Rightarrow> MessageNewParams \<Rightarrow> MessageNewParams" where
  \<comment> \<open>\<open>if c, ok := input.Config.(*GenerationAnthropicConfig); ok && c != nil\<close>\<close>
  "apply_anthropic_config cfg params =
     (case cfg of
        ConfigAnthropic (Some c) \<Rightarrow>
          (set_common (Common c) params)
            \<lparr>p_ToolChoice := Some (ToolChoiceParam c), p_Metadata := Some (Metadata c)\<rparr>
      | _ \<Rightarrow> params)"

definition unsupported_output :: "GenerateRequest \<Rightarrow> string option" where
  \<comment> \<open>\<open>input.Output != nil && input.Output.Format != ai.OutputFormatText\<close>, with the format\<close>
  "unsupported_output input =
     (case Output input of
        None \<Rightarrow> None
      | Some out \<Rightarrow> if Format out \<noteq> OutputFormatText then Some (Format out) else None)"

definition convertRequest :: "string \<Rightarrow> GenerateRequest \<Rightarrow> error + MessageNewParams" where
  "convertRequest model input =
     (case unsupported_output input of
        Some fmt \<Rightarrow> Inl (UnsupportedOutputFormat fmt)
      | None \<Rightarrow>
          (case convertMessages (Messages input) of
             Inl err \<Rightarrow> Inl err
           | Inr (system, messages) \<Rightarrow>
               (case convertTools (Tools input) of
                  Inl err \<Rightarrow> Inl err
                | Inr tools \<Rightarrow>
                    Inr (apply_anthropic_config (Config input)
                          (apply_common_config (Config input)
                            (empty_params\<lparr>p_System := Some system, p_Model := Some model,
                                           p_Messages := Some messages,
                                           p_Tools := Some tools\<rparr>))))))"

section \<open>Inbound response translator\<close>

definition NewTextPart :: "string \<Rightarrow> Part" where
  "NewTextPart text =
     \<lparr>Kind = PartText, ContentType = ''plain/text'', Text = text,
      ToolRequest = None, ToolResponse = None\<rparr>"

definition translateCandidate :: "ContentBlock \<Rightarrow> string \<Rightarrow> Candidate" where
  "translateCandidate c stopReason =
     \<lparr>cand_FinishReason =
        (if stopReason = MessageStopReasonEndTurn then FinishReasonStop
         else if stopReason = MessageStopReasonMaxTokens then FinishReasonLength
         else if stopReason = MessageStopReasonStopSequence then FinishReasonOther
         else if stopReason = MessageStopReasonToolUse then FinishReasonOther
         else FinishReasonUnknown),
      cand_Message = \<lparr>Role = RoleModel, Content = [Some (NewTextPart (cb_Text c))]\<rparr>\<rparr>"

definition translateResponse :: "AnthropicMessage \<Rightarrow> GenerateResponse" where
  "translateResponse res =
     \<lparr>Candidates = map (\<lambda>c. translateCandidate c (msg_StopReason res)) (msg_Content res),
      resp_Usage =
        \<lparr>InputTokens = usage_InputTokens (msg_Usage res),
         OutputTokens = usage_OutputTokens (msg_Usage res),
         TotalTokens = usage_InputTokens (msg_Usage res) + usage_OutputTokens (msg_Usage res)\<rparr>,
      Request = None\<rparr>"

section \<open>Values of the specification's examples\<close>




definition hello_request :: "Config \<Rightarrow> GenerateRequest" where
  "hello_request cfg =
     \<lparr>Messages = [Some \<lparr>Role = RoleUser, Content = [Some (NewTextPart ''hello'')]\<rparr>],
      Tools = [], Output = None, Config = cfg\<rparr>"

section \<open>Properties of the data-URL extractor\<close>

lemma first_success_SomeD:
  "first_success f xs = Some y \<Longrightarrow> \<exists>x\<in>set xs. f x = Some y"
  by (induction xs) (auto split: option.splits)

lemma set_plus_splits:
  "set (plus_splits cls s) =
     {(take k s, drop k s) | k. 1 \<le> k \<and> k \<le> length (takeWhile cls s)}"
  by (auto simp: plus_splits_def)

lemma plus_splits_longest_first:
  assumes "takeWhile cls s \<noteq> []"
  shows "\<exists>rest. plus_splits cls s = (takeWhile cls s, dropWhile cls s) # rest"
proof -
  define n where "n = length (takeWhile cls s)"
  have n: "0 < n" using assms by (simp add: n_def)
  then have "rev [1..<Suc n] = n # rev [1..<n]" by simp
  moreover have "take n s = takeWhile cls s" "drop n s = dropWhile cls s"
    by (simp_all add: n_def takeWhile_eq_take [symmetric] dropWhile_eq_drop [symmetric])
  ultimately show ?thesis by (simp add: plus_splits_def n_def [symmetric])
qed

lemma takeWhile_stop:
  assumes "\<forall>x\<in>set xs. P x" "ys = [] \<or> \<not> P (hd ys)"
  shows "takeWhile P (xs @ ys) = xs" "dropWhile P (xs @ ys) = ys"
  using assms by (cases ys; simp)+

lemma strip_prefix_append: "strip_prefix pre (pre @ s) = Some s"
  by (simp add: strip_prefix_def)

lemma strip_prefix_SomeD: "strip_prefix pre s = Some r \<Longrightarrow> s = pre @ r"
  by (auto simp: strip_prefix_def split: if_splits) (metis append_take_drop_id)

lemma match_group2_iff:
  "match_group2 s = Some p \<longleftrightarrow> p = s \<and> s \<noteq> [] \<and> CHR 0x0A \<notin> set s"
proof
  assume "match_group2 s = Some p"
  then obtain k where k: "1 \<le> k" "k \<le> length (takeWhile any_char_no_NL s)"
      and p: "p = take k s" and e: "drop k s = []"
    unfolding match_group2_def
    by (fastforce dest!: first_success_SomeD simp: set_plus_splits split: if_splits)
  have le: "length (takeWhile any_char_no_NL s) \<le> length s"
    by (rule length_takeWhile_le)
  from e have "length s \<le> k" by simp
  with k le have len: "length (takeWhile any_char_no_NL s) = length s" and ks: "k = length s"
    by simp_all
  from len have "takeWhile any_char_no_NL s = s"
    by (metis takeWhile_eq_take take_all order_refl)
  then have "\<forall>c\<in>set s. any_char_no_NL c"
    by (metis set_takeWhileD)
  then have nl: "CHR 0x0A \<notin> set s"
    unfolding any_char_no_NL_def by blast
  from p ks have "p = s" by simp
  moreover from ks k have "s \<noteq> []" by auto
  ultimately show "p = s \<and> s \<noteq> [] \<and> CHR 0x0A \<notin> set s"
    using nl by blast
next
  assume a: "p = s \<and> s \<noteq> [] \<and> CHR 0x0A \<notin> set s"
  then have "\<forall>c\<in>set s. any_char_no_NL c"
    unfolding any_char_no_NL_def by blast
  then have tw: "takeWhile any_char_no_NL s = s" "dropWhile any_char_no_NL s = []"
    by simp_all
  with a plus_splits_longest_first [of any_char_no_NL s]
  obtain rest where "plus_splits any_char_no_NL s = (s, []) # rest" by auto
  with a show "match_group2 s = Some p" by (simp add: match_group2_def)
qed

lemma FindStringSubmatch_iff:
  "FindStringSubmatch url = Some (w, m, p) \<longleftrightarrow>
     w = url \<and> url = ''data:'' @ m @ '';base64,'' @ p \<and>
     m \<noteq> [] \<and> CHR '';'' \<notin> set m \<and> p \<noteq> [] \<and> CHR 0x0A \<notin> set p"
  (is "?L \<longleftrightarrow> ?R")
proof
  assume ?L
  then obtain r where r: "strip_prefix ''data:'' url = Some r"
      and fs: "first_success match_tail (plus_splits not_semicolon r) = Some (m, p)"
      and w: "w = url"
    by (auto simp: FindStringSubmatch_def split: option.splits)
  from fs obtain k where k: "1 \<le> k" "k \<le> length (takeWhile not_semicolon r)"
      and mt: "match_tail (take k r, drop k r) = Some (m, p)"
    by (fastforce dest!: first_success_SomeD simp: set_plus_splits)
  from mt obtain s where m: "m = take k r" and s: "strip_prefix '';base64,'' (drop k r) = Some s"
      and g2: "match_group2 s = Some p"
    by (auto simp: match_tail_def split: option.splits)
  have "r = take k r @ drop k r" by simp
  with s m have rr: "r = m @ '';base64,'' @ s"
    by (metis strip_prefix_SomeD)
  have "take k r = take k (takeWhile not_semicolon r)"
    using k by (metis takeWhile_eq_take take_take min.absorb1)
  then have "set m \<subseteq> set (takeWhile not_semicolon r)"
    using m by (metis set_take_subset)
  then have semi: "CHR '';'' \<notin> set m"
    by (auto dest!: set_takeWhileD simp: not_semicolon_def)
  have "length (takeWhile not_semicolon r) \<le> length r" by (rule length_takeWhile_le)
  with k m have "m \<noteq> []" by auto
  with r rr g2 semi w show ?R
    by (auto simp: match_group2_iff dest: strip_prefix_SomeD)
next
  assume R: ?R
  let ?t = "'';base64,'' @ p"
  from R have all: "\<forall>c\<in>set m. not_semicolon c" by (auto simp: not_semicolon_def)
  have stop: "?t = [] \<or> \<not> not_semicolon (hd ?t)" by (simp add: not_semicolon_def)
  have tw: "takeWhile not_semicolon (m @ ?t) = m" "dropWhile not_semicolon (m @ ?t) = ?t"
    using takeWhile_stop [OF all stop] by simp_all
  with R plus_splits_longest_first [of not_semicolon "m @ ?t"]
  obtain rest where ps: "plus_splits not_semicolon (m @ ?t) = (m, ?t) # rest" by auto
  have g2: "match_group2 p = Some p" using R by (simp add: match_group2_iff)
  have "strip_prefix '';base64,'' ?t = Some p" by (rule strip_prefix_append)
  with g2 have "match_tail (m, ?t) = Some (m, p)" by (simp add: match_tail_def)
  with ps have "first_success match_tail (plus_splits not_semicolon (m @ ?t)) = Some (m, p)"
    by simp
  moreover have "strip_prefix ''data:'' url = Some (m @ ?t)"
    using R strip_prefix_append [of "''data:''" "m @ ?t"] by simp
  ultimately show ?L using R by (simp add: FindStringSubmatch_def)
qed

lemma extract_Inr_iff:
  "extractDataFromBase64URL url = Inr (p, m) \<longleftrightarrow>
     url = data_url m p \<and> m \<noteq> [] \<and> CHR '';'' \<notin> set m \<and> p \<noteq> [] \<and> CHR 0x0A \<notin> set p"
proof -
  have "extractDataFromBase64URL url = Inr (p, m) \<longleftrightarrow>
          (\<exists>w. FindStringSubmatch url = Some (w, m, p))"
    by (auto simp: extractDataFromBase64URL_def split: option.splits)
  also have "\<dots> \<longleftrightarrow> url = ''data:'' @ m @ '';base64,'' @ p \<and>
     m \<noteq> [] \<and> CHR '';'' \<notin> set m \<and> p \<noteq> [] \<and> CHR 0x0A \<notin> set p"
    unfolding FindStringSubmatch_iff by blast
  finally show ?thesis by (simp only: data_url_def)
qed

lemma extract_cases:
  "extractDataFromBase64URL url = Inl MalformedDataURL \<or>
   (\<exists>p m. extractDataFromBase64URL url = Inr (p, m))"
  by (auto simp: extractDataFromBase64URL_def split: option.splits)

lemma data_url_inject:
  assumes "data_url m p = data_url m' p'" "CHR '';'' \<notin> set m" "CHR '';'' \<notin> set m'"
  shows "m = m' \<and> p = p'"
proof -
  let ?t = "'';base64,'' @ p" and ?t' = "'';base64,'' @ p'"
  have eq: "m @ ?t = m' @ ?t'" using assms(1) by (simp add: data_url_def)
  have a: "\<forall>c\<in>set m. not_semicolon c" and a': "\<forall>c\<in>set m'. not_semicolon c"
    using assms(2,3) by (auto simp: not_semicolon_def)
  have s: "?t = [] \<or> \<not> not_semicolon (hd ?t)" and s': "?t' = [] \<or> \<not> not_semicolon (hd ?t')"
    by (simp_all add: not_semicolon_def)
  have "takeWhile not_semicolon (m @ ?t) = m" by (rule takeWhile_stop(1) [OF a s])
  moreover have "takeWhile not_semicolon (m' @ ?t') = m'" by (rule takeWhile_stop(1) [OF a' s'])
  ultimately have "m = m'" using eq by simp
  with eq show ?thesis by simp
qed

text \<open>
  C4 (as amended). For every string \<open>data:<media-type>;base64,<payload>\<close> whose media type
  is one or more characters other than the semicolon and whose payload is one or more
  characters other than the line feed, \<open>extractDataFromBase64URL\<close> returns exactly the
  pair (payload, media type); for every string that is not of this form it fails with
  the malformed-data-URL error.
\<close>

theorem extractDataFromBase64URL_spec:
  "(m \<noteq> [] \<and> CHR '';'' \<notin> set m \<and> p \<noteq> [] \<and> CHR 0x0A \<notin> set p
      \<longrightarrow> extractDataFromBase64URL (data_url m p) = Inr (p, m)) \<and>
   (\<not> (\<exists>m' p'. url = data_url m' p' \<and> m' \<noteq> [] \<and> CHR '';'' \<notin> set m' \<and>
                 p' \<noteq> [] \<and> CHR 0x0A \<notin> set p')
      \<longrightarrow> extractDataFromBase64URL url = Inl MalformedDataURL)"
proof (intro conjI impI)
  assume "m \<noteq> [] \<and> CHR '';'' \<notin> set m \<and> p \<noteq> [] \<and> CHR 0x0A \<notin> set p"
  then show "extractDataFromBase64URL (data_url m p) = Inr (p, m)"
    by (simp add: extract_Inr_iff)
next
  assume none: "\<not> (\<exists>m' p'. url = data_url m' p' \<and> m' \<noteq> [] \<and> CHR '';'' \<notin> set m' \<and>
                 p' \<noteq> [] \<and> CHR 0x0A \<notin> set p')"
  from extract_cases [of url] show "extractDataFromBase64URL url = Inl MalformedDataURL"
  proof
    assume "\<exists>p m. extractDataFromBase64URL url = Inr (p, m)"
    then obtain p0 m0 where "extractDataFromBase64URL url = Inr (p0, m0)" by blast
    then have "url = data_url m0 p0 \<and> m0 \<noteq> [] \<and> CHR '';'' \<notin> set m0 \<and>
                 p0 \<noteq> [] \<and> CHR 0x0A \<notin> set p0"
      by (rule extract_Inr_iff [THEN iffD1])
    with none show ?thesis by blast
  qed
qed

theorem extractDataFromBase64URL_spec_witness:
  "extractDataFromBase64URL (data_url ''image/png'' ''AAA='') = Inr (''AAA='', ''image/png'') \<and>
   extractDataFromBase64URL ''image/png;base64,AAA='' = Inl MalformedDataURL"
proof -
  have "\<not> (\<exists>m' p'. ''image/png;base64,AAA='' = data_url m' p' \<and> m' \<noteq> [] \<and>
              CHR '';'' \<notin> set m' \<and> p' \<noteq> [] \<and> CHR 0x0A \<notin> set p')"
    by (simp add: data_url_def)
  then show ?thesis
    using extractDataFromBase64URL_spec [of "''image/png''" "''AAA=''" "''image/png;base64,AAA=''"]
    by simp
qed

text \<open>
  C4 as stated fails: a payload may hold a line feed, which \<open>.\<close> does not match, or be
  empty, which \<open>.+\<close> does not match; the string is then of the stated form and the
  extractor rejects it.
\<close>

theorem extractDataFromBase64URL_line_feed_counterexample:
  "''text/plain'' \<noteq> [] \<and> CHR '';'' \<notin> set ''text/plain'' \<and>
   extractDataFromBase64URL (data_url ''text/plain'' [CHR ''Q'', CHR 0x0A, CHR ''U''])
     = Inl MalformedDataURL \<and>
   extractDataFromBase64URL (data_url ''text/plain'' [CHR ''Q'', CHR 0x0A, CHR ''U''])
     \<noteq> Inr ([CHR ''Q'', CHR 0x0A, CHR ''U''], ''text/plain'') \<and>
   extractDataFromBase64URL (data_url ''text/plain'' []) \<noteq> Inr ([], ''text/plain'')"
  by (simp add: data_url_def extractDataFromBase64URL_def FindStringSubmatch_def
      strip_prefix_def plus_splits_def match_tail_def match_group2_def
      not_semicolon_def any_char_no_NL_def)

text \<open>
  C10. A string \<open>data:<media-type>;base64,\<close> with nothing after the comma is rejected
  with the malformed-data-URL error: the second group needs at least one character.
\<close>

theorem extractDataFromBase64URL_empty_payload:
  assumes "CHR '';'' \<notin> set m"
  shows "extractDataFromBase64URL (data_url m []) = Inl MalformedDataURL"
proof -
  from extract_cases [of "data_url m []"] show ?thesis
  proof
    assume "\<exists>p' m'. extractDataFromBase64URL (data_url m []) = Inr (p', m')"
    then obtain p' m' where "extractDataFromBase64URL (data_url m []) = Inr (p', m')"
      by blast
    then have "data_url m [] = data_url m' p' \<and> m' \<noteq> [] \<and> CHR '';'' \<notin> set m' \<and>
                 p' \<noteq> [] \<and> CHR 0x0A \<notin> set p'"
      by (rule extract_Inr_iff [THEN iffD1])
    then have u: "data_url m [] = data_url m' p'" and s: "CHR '';'' \<notin> set m'" and ne: "p' \<noteq> []"
      by blast+
    from data_url_inject [OF u assms s] ne show ?thesis by simp
  qed
qed

theorem extractDataFromBase64URL_empty_payload_witness:
  "extractDataFromBase64URL ''data:image/png;base64,'' = Inl MalformedDataURL"
  using extractDataFromBase64URL_empty_payload [of "''image/png''"]
  by (simp add: data_url_def)

section \<open>Properties of the tool-response encoder\<close>

lemma no_image_path_text:
  assumes "as_string (map_index (resp_Output r) ''url'') = None \<or>
           (\<exists>u. as_string (map_index (resp_Output r) ''url'') = Some u \<and>
                extractDataFromBase64URL u = Inl MalformedDataURL)"
  shows "convertToolResponse r = text_fallback (resp_Output r)"
  using assms by (auto simp: convertToolResponse_def)

text \<open>
  C2. The claim asks for the serialized map as a JSON string in the \<open>"text"\<close> field:
  \<open>{"type":"text","text":"{\"result\":42}"}\<close> for the output \<open>{"result": 42}\<close>. The
  encoder copies the serialized map into the block unquoted: for this output, which
  has no \<open>"url"\<close> key, it returns \<open>{"type":"text","text":{"result":42}}\<close>, not the
  string the claim gives (written below with \<open>CHR 0x5C\<close> for the backslash).
\<close>

theorem convertToolResponse_text_unquoted:
  "as_string (map_index (Some [(''result'', VInt 42)]) ''url'') = None \<and>
   json_Marshal (Some [(''result'', VInt 42)]) = Some ''{\"result\":42}'' \<and>
   convertToolResponse \<lparr>resp_Name = ''calc'', resp_Output = Some [(''result'', VInt 42)]\<rparr>
     = ''{\"type\":\"text\",\"text\":{\"result\":42}}'' \<and>
   convertToolResponse \<lparr>resp_Name = ''calc'', resp_Output = Some [(''result'', VInt 42)]\<rparr>
     \<noteq> ''{\"type\":\"text\",\"text\":\"{'' @ [CHR 0x5C] @ ''\"result'' @ [CHR 0x5C] @
        ''\":42}\"}''"
  by code_simp

text \<open>
  C5. For every tool response whose output map holds under \<open>"url"\<close> a string
  \<open>data:<media-type>;base64,<payload>\<close> that the extractor accepts (a media type of one or
  more characters other than the semicolon, a payload of one or more characters other
  than the line feed), \<open>convertToolResponse\<close> returns the image block
  \<open>{"type":"image","source":{"type":"base64","data":<payload>,"media_type":<type>}}\<close>,
  where the type is the map's \<open>"contentType"\<close> string when there is one and the media
  type of the URL otherwise.
\<close>

theorem convertToolResponse_image:
  assumes "as_string (map_index (resp_Output r) ''url'') = Some (data_url m p)"
    and "m \<noteq> []" "CHR '';'' \<notin> set m" "p \<noteq> []" "CHR 0x0A \<notin> set p"
  shows "convertToolResponse r =
           ''{\"type\":\"image\",\"source\":{\"type\":\"base64\",\"data\":\"'' @ p @
           ''\",\"media_type\":\"'' @
           (case as_string (map_index (resp_Output r) ''contentType'') of
              Some c \<Rightarrow> c | None \<Rightarrow> m) @ ''\"}}''"
proof -
  have "extractDataFromBase64URL (data_url m p) = Inr (p, m)"
    using assms(2-5) by (simp add: extract_Inr_iff)
  with assms(1) show ?thesis
    by (simp add: convertToolResponse_def image_block_def split: option.splits)
qed

theorem convertToolResponse_image_witness:
  "convertToolResponse
     \<lparr>resp_Name = ''shot'',
      resp_Output = Some [(''url'', VString ''data:image/png;base64,AAA='')]\<rparr>
     = ''{\"type\":\"image\",\"source\":{\"type\":\"base64\",\"data\":\"AAA=\",\"media_type\":\"image/png\"}}'' \<and>
   convertToolResponse
     \<lparr>resp_Name = ''shot'',
      resp_Output = Some [(''url'', VString ''data:image/png;base64,AAA=''),
                          (''contentType'', VString ''image/jpeg'')]\<rparr>
     = ''{\"type\":\"image\",\"source\":{\"type\":\"base64\",\"data\":\"AAA=\",\"media_type\":\"image/jpeg\"}}''"
  using
    convertToolResponse_image
      [of "\<lparr>resp_Name = ''shot'',
            resp_Output = Some [(''url'', VString ''data:image/png;base64,AAA='')]\<rparr>"
          "''image/png''" "''AAA=''"]
    convertToolResponse_image
      [of "\<lparr>resp_Name = ''shot'',
            resp_Output = Some [(''url'', VString ''data:image/png;base64,AAA=''),
                                (''contentType'', VString ''image/jpeg'')]\<rparr>"
          "''image/png''" "''AAA=''"]
  by (simp add: as_string_def map_index_def data_url_def)

section \<open>Properties of the outbound message converter\<close>

lemma convertMessages_loop_result:
  "convertMessages_loop msgs system user = Inr (s, u) \<Longrightarrow> s = system \<and> u = user"
  by (induction msgs system user rule: convertMessages_loop.induct)
     (auto split: sum.splits)

lemma convertMessages_returns_empty:
  "convertMessages msgs = Inr (s, u) \<Longrightarrow> s = [] \<and> u = []"
  unfolding convertMessages_def by (rule convertMessages_loop_result)

text \<open>
  C1. The claim asks that converting an all-text conversation keeps the message count
  and the roles, every converted message being appended to one of the two returned
  lists. The converter returns both lists empty: for the two-message conversation
  below (a user turn and a model turn) nothing comes back.
\<close>

theorem convertMessages_drops_messages:
  "convertMessages
     [Some \<lparr>Role = RoleUser, Content = [Some (NewTextPart ''hello'')]\<rparr>,
      Some \<lparr>Role = RoleModel, Content = [Some (NewTextPart ''hi'')]\<rparr>]
     = Inr ([], [])"
  by (simp add: convertMessages_def convertPart_def NewTextPart_def)

lemma convertPart_Inr:
  "populated p \<Longrightarrow> part_kind p = Some k \<Longrightarrow> supported_kind k \<Longrightarrow> \<exists>b. convertPart p = Inr b"
  by (cases p) (auto simp: populated_def part_kind_def supported_kind_def convertPart_def)

lemma convertPart_unsupported:
  "part_kind p = Some k \<Longrightarrow> \<not> supported_kind k \<Longrightarrow> convertPart p = Inl (UnsupportedPartKind k)"
  by (cases p; cases k) (auto simp: part_kind_def supported_kind_def convertPart_def)

lemma convertPart_error:
  "convertPart p = Inl e \<Longrightarrow>
     e = NilDereference \<or>
     (\<exists>k. part_kind p = Some k \<and> \<not> supported_kind k \<and> e = UnsupportedPartKind k)"
  by (cases p) (auto simp: part_kind_def supported_kind_def convertPart_def
      split: PartKind.splits option.splits)

lemma convertContent_append_ok:
  "\<forall>p\<in>set pre. populated p \<and> (\<exists>k. part_kind p = Some k \<and> supported_kind k) \<Longrightarrow>
   \<exists>acc'. convertContent (pre @ rest) acc = convertContent rest acc'"
proof (induction pre arbitrary: acc)
  case Nil
  then show ?case by auto
next
  case (Cons a pre)
  then obtain b where "convertPart a = Inr b" using convertPart_Inr by fastforce
  with Cons show ?case by simp
qed

lemma convertContent_all_ok:
  assumes "\<forall>p\<in>set ps. populated p \<and> (\<exists>k. part_kind p = Some k \<and> supported_kind k)"
  shows "\<exists>c. convertContent ps acc = Inr c"
  using convertContent_append_ok [OF assms, of "[]" acc] by simp

lemma convertContent_first_unsupported:
  assumes "\<forall>q\<in>set pre. populated q \<and> (\<exists>k'. part_kind q = Some k' \<and> supported_kind k')"
    and "part_kind p = Some k" "\<not> supported_kind k"
  shows "convertContent (pre @ p # post) acc = Inl (UnsupportedPartKind k)"
proof -
  from convertContent_append_ok [OF assms(1), of "p # post" acc]
  obtain acc' where "convertContent (pre @ p # post) acc = convertContent (p # post) acc'"
    by blast
  with convertPart_unsupported [OF assms(2,3)] show ?thesis by simp
qed

lemma convertContent_error:
  "convertContent ps acc = Inl e \<Longrightarrow>
     e = NilDereference \<or>
     (\<exists>p\<in>set ps. \<exists>k. part_kind p = Some k \<and> \<not> supported_kind k \<and> e = UnsupportedPartKind k)"
proof (induction ps arbitrary: acc)
  case Nil
  then show ?case by simp
next
  case (Cons a ps)
  show ?case
  proof (cases "convertPart a")
    case (Inl e')
    with Cons.prems have "e' = e" by simp
    with Inl convertPart_error [of a e] show ?thesis by auto
  next
    case (Inr b)
    with Cons.prems have "convertContent ps (acc @ [b]) = Inl e" by simp
    from Cons.IH [OF this] show ?thesis by auto
  qed
qed

lemma convertMessages_loop_error:
  "convertMessages_loop msgs system user = Inl e \<Longrightarrow>
     e = NilDereference \<or>
     (\<exists>p\<in>set (parts_of msgs). \<exists>k. part_kind p = Some k \<and> \<not> supported_kind k \<and>
                                   e = UnsupportedPartKind k)"
proof (induction msgs system user rule: convertMessages_loop.induct)
  case (1 system user)
  then show ?case by simp
next
  case (2 msgs system user)
  then show ?case by simp
next
  case (3 msg msgs system user)
  show ?case
  proof (cases "convertContent (Content msg) []")
    case (Inl e')
    with "3.prems" have "e' = e" by simp
    with Inl convertContent_error [of "Content msg" "[]" e] show ?thesis by auto
  next
    case (Inr content)
    with "3.prems" have "convertMessages_loop msgs system user = Inl e" by simp
    from "3.IH" [OF Inr this] show ?thesis by auto
  qed
qed

lemma convertMessages_loop_first_unsupported:
  assumes "None \<notin> set msgs" "parts_of msgs = pre @ p # post"
    and "\<forall>q\<in>set pre. populated q \<and> (\<exists>k'. part_kind q = Some k' \<and> supported_kind k')"
    and "part_kind p = Some k" "\<not> supported_kind k"
  shows "convertMessages_loop msgs system user = Inl (UnsupportedPartKind k)"
  using assms
proof (induction msgs system user arbitrary: pre rule: convertMessages_loop.induct)
  case (1 system user)
  then show ?case by simp
next
  case (2 msgs system user)
  then show ?case by simp
next
  case (3 msg msgs system user)
  from "3.prems"(2) have eq: "Content msg @ parts_of msgs = pre @ p # post" by simp
  then consider
    (inside) us where "Content msg = pre @ us" "us @ parts_of msgs = p # post" "us \<noteq> []"
  | (later) us where "Content msg @ us = pre" "parts_of msgs = us @ p # post"
    by (auto simp: append_eq_append_conv2) (metis append_Nil append.right_neutral)
  then show ?case
  proof cases
    case inside
    then obtain post1 where "us = p # post1" by (cases us) auto
    with inside have "Content msg = pre @ p # post1" by simp
    with convertContent_first_unsupported [OF "3.prems"(3,4,5), of post1 "[]"]
    show ?thesis by simp
  next
    case later
    then have pre: "pre = Content msg @ us" by simp
    with "3.prems"(3) have okc:
      "\<forall>q\<in>set (Content msg). populated q \<and> (\<exists>k'. part_kind q = Some k' \<and> supported_kind k')"
      and oku: "\<forall>q\<in>set us. populated q \<and> (\<exists>k'. part_kind q = Some k' \<and> supported_kind k')"
      by auto
    from convertContent_all_ok [OF okc, of "[]"] obtain c where
      c: "convertContent (Content msg) [] = Inr c" by blast
    from "3.prems"(1) have nn: "None \<notin> set msgs" by simp
    from "3.IH" [OF c nn later(2) oku "3.prems"(4,5)] c show ?thesis by simp
  qed
qed

text \<open>
  C8. Let the parts of the messages be taken in the order the converter visits them.
  If a part has a kind other than text, media, tool-request and tool-response, and
  the parts before it are of supported kinds and satisfy the data-model invariant (no
  nil message or part, a tool-request or tool-response part carries its payload), then
  \<open>convertMessages\<close> fails with the unsupported-part-kind error naming the kind of that
  part. If every part is of a supported kind, \<open>convertMessages\<close> does not fail with an
  unsupported-part-kind error, whatever kind it would name.
\<close>

theorem convertMessages_unsupported_kind:
  "(None \<notin> set msgs \<and> parts_of msgs = pre @ p # post \<and>
    (\<forall>q\<in>set pre. populated q \<and> (\<exists>k'. part_kind q = Some k' \<and> supported_kind k')) \<and>
    part_kind p = Some k \<and> \<not> supported_kind k
      \<longrightarrow> convertMessages msgs = Inl (UnsupportedPartKind k)) \<and>
   ((\<forall>q\<in>set (parts_of msgs). \<forall>k'. part_kind q = Some k' \<longrightarrow> supported_kind k')
      \<longrightarrow> convertMessages msgs \<noteq> Inl (UnsupportedPartKind k))"
proof (intro conjI impI)
  assume "None \<notin> set msgs \<and> parts_of msgs = pre @ p # post \<and>
    (\<forall>q\<in>set pre. populated q \<and> (\<exists>k'. part_kind q = Some k' \<and> supported_kind k')) \<and>
    part_kind p = Some k \<and> \<not> supported_kind k"
  then show "convertMessages msgs = Inl (UnsupportedPartKind k)"
    unfolding convertMessages_def
    by (intro convertMessages_loop_first_unsupported [of msgs pre p post k]) blast+
next
  assume all: "\<forall>q\<in>set (parts_of msgs). \<forall>k'. part_kind q = Some k' \<longrightarrow> supported_kind k'"
  show "convertMessages msgs \<noteq> Inl (UnsupportedPartKind k)"
  proof
    assume "convertMessages msgs = Inl (UnsupportedPartKind k)"
    from convertMessages_loop_error [OF this [unfolded convertMessages_def]] all
    show False by auto
  qed
qed

theorem convertMessages_unsupported_kind_witness:
  "convertMessages
     [Some \<lparr>Role = RoleUser,
            Content = [Some (NewTextPart ''look''),
                       Some \<lparr>Kind = PartData, ContentType = ''application/json'', Text = ''{}'',
                             ToolRequest = None, ToolResponse = None\<rparr>]\<rparr>]
     = Inl (UnsupportedPartKind PartData) \<and>
   convertMessages [Some \<lparr>Role = RoleUser, Content = [Some (NewTextPart ''look'')]\<rparr>]
     \<noteq> Inl (UnsupportedPartKind PartData)"
  using
    convertMessages_unsupported_kind
      [of "[Some \<lparr>Role = RoleUser,
            Content = [Some (NewTextPart ''look''),
                       Some \<lparr>Kind = PartData, ContentType = ''application/json'', Text = ''{}'',
                             ToolRequest = None, ToolResponse = None\<rparr>]\<rparr>]"
          "[Some (NewTextPart ''look'')]"
          "Some \<lparr>Kind = PartData, ContentType = ''application/json'', Text = ''{}'',
                             ToolRequest = None, ToolResponse = None\<rparr>"
          "[]" PartData]
    convertMessages_unsupported_kind
      [of "[Some \<lparr>Role = RoleUser, Content = [Some (NewTextPart ''look'')]\<rparr>]"
          "[]" None "[]" PartData]
  by (simp add: populated_def part_kind_def supported_kind_def NewTextPart_def)

section \<open>Properties of the outbound request assembler\<close>

lemma convertTools_loop_error:
  "convertTools_loop tools res = Inl e \<Longrightarrow> e = NilDereference"
  by (induction tools res rule: convertTools_loop.induct) auto

text \<open>
  C7. For every request that names an output format other than plain text,
  \<open>convertRequest\<close> fails with the unsupported-output-format error (carrying that
  format), whatever the messages and tools of the request are.
\<close>

theorem convertRequest_rejects_format:
  assumes "Output input = Some out" "Format out \<noteq> OutputFormatText"
  shows "convertRequest model input = Inl (UnsupportedOutputFormat (Format out))"
  using assms by (simp add: convertRequest_def unsupported_output_def)

theorem convertRequest_rejects_format_witness:
  "convertRequest ''claude-3-haiku-20240307''
     \<lparr>Messages = [None], Tools = [None],
      Output = Some \<lparr>Format = OutputFormatJSON, Schema = None\<rparr>, Config = ConfigNil\<rparr>
   = Inl (UnsupportedOutputFormat ''json'')"
  using convertRequest_rejects_format
    [of "\<lparr>Messages = [None], Tools = [None],
      Output = Some \<lparr>Format = OutputFormatJSON, Schema = None\<rparr>, Config = ConfigNil\<rparr>"
        "\<lparr>Format = OutputFormatJSON, Schema = None\<rparr>" "''claude-3-haiku-20240307''"]
  by (simp add: OutputFormatJSON_def OutputFormatText_def)

text \<open>
  C9. For every request whose output specification is nil, \<open>convertRequest\<close> does not
  fail with the unsupported-output-format error, whatever format the error would name.
\<close>

theorem convertRequest_nil_output:
  assumes "Output input = None"
  shows "convertRequest model input \<noteq> Inl (UnsupportedOutputFormat fmt)"
proof
  assume a: "convertRequest model input = Inl (UnsupportedOutputFormat fmt)"
  have u: "unsupported_output input = None"
    using assms by (simp add: unsupported_output_def)
  show False
  proof (cases "convertMessages (Messages input)")
    case (Inl e)
    with a u have "e = UnsupportedOutputFormat fmt" by (simp add: convertRequest_def)
    with Inl convertMessages_loop_error [of "Messages input" "[]" "[]" e]
    show False by (auto simp: convertMessages_def)
  next
    case (Inr sm)
    show False
    proof (cases "convertTools (Tools input)")
      case (Inl e)
      with a u Inr have "e = UnsupportedOutputFormat fmt"
        by (simp add: convertRequest_def split: prod.splits)
      with Inl convertTools_loop_error [of "Tools input" "[]" e]
      show False by (simp add: convertTools_def)
    next
      case (Inr tools)
      with a u \<open>convertMessages (Messages input) = Inr sm\<close> show False
        by (simp add: convertRequest_def split: prod.splits)
    qed
  qed
qed

theorem convertRequest_nil_output_witness:
  "convertRequest ''claude-3-haiku-20240307'' (hello_request ConfigNil)
     \<noteq> Inl (UnsupportedOutputFormat ''json'') \<and>
   convertRequest ''claude-3-haiku-20240307'' (hello_request ConfigNil) =
     Inr \<lparr>p_MaxTokens = None, p_Messages = Some [], p_Model = Some ''claude-3-haiku-20240307'',
          p_Metadata = None, p_StopSequences = None, p_System = Some [], p_Temperature = None,
          p_ToolChoice = None, p_Tools = Some [], p_TopK = None, p_TopP = None\<rparr>"
  using convertRequest_nil_output
    [of "hello_request ConfigNil" "''claude-3-haiku-20240307''" "''json''"]
  by (simp add: convertRequest_def hello_request_def unsupported_output_def convertMessages_def
      convertPart_def NewTextPart_def convertTools_def apply_common_config_def
      apply_anthropic_config_def empty_params_def)



section \<open>Properties of the inbound response translator\<close>

lemmas stop_reason_defs =
  MessageStopReasonEndTurn_def MessageStopReasonMaxTokens_def
  MessageStopReasonStopSequence_def MessageStopReasonToolUse_def

lemma sint_add_exact:
  fixes a b :: int64
  assumes "- (2 ^ 63) \<le> sint a + sint b" "sint a + sint b < 2 ^ 63"
  shows "sint (a + b) = sint a + sint b"
  using assms by (simp add: sint_word_ariths signed_take_bit_int_eq_self)

text \<open>
  C6 (as amended). Every candidate of the translated response carries the finish
  reason of the response-level stop reason: end-turn gives Stop, max-tokens Length,
  stop-sequence Other, tool-use Other, and every other value Unknown. The total token
  count of the translated usage is the sum of its input and output counts in 64-bit
  wrap-around arithmetic, and it is the exact sum whenever that sum fits a signed
  64-bit integer.
\<close>

theorem translateResponse_spec:
  "Candidates (translateResponse res) =
     map (\<lambda>c. translateCandidate c (msg_StopReason res)) (msg_Content res) \<and>
   (sr = MessageStopReasonEndTurn
      \<longrightarrow> cand_FinishReason (translateCandidate c sr) = FinishReasonStop) \<and>
   (sr = MessageStopReasonMaxTokens
      \<longrightarrow> cand_FinishReason (translateCandidate c sr) = FinishReasonLength) \<and>
   (sr = MessageStopReasonStopSequence
      \<longrightarrow> cand_FinishReason (translateCandidate c sr) = FinishReasonOther) \<and>
   (sr = MessageStopReasonToolUse
      \<longrightarrow> cand_FinishReason (translateCandidate c sr) = FinishReasonOther) \<and>
   (sr \<noteq> MessageStopReasonEndTurn \<and> sr \<noteq> MessageStopReasonMaxTokens \<and>
    sr \<noteq> MessageStopReasonStopSequence \<and> sr \<noteq> MessageStopReasonToolUse
      \<longrightarrow> cand_FinishReason (translateCandidate c sr) = FinishReasonUnknown) \<and>
   TotalTokens (resp_Usage (translateResponse res)) =
     InputTokens (resp_Usage (translateResponse res)) +
     OutputTokens (resp_Usage (translateResponse res)) \<and>
   (- (2 ^ 63) \<le> sint (InputTokens (resp_Usage (translateResponse res))) +
                  sint (OutputTokens (resp_Usage (translateResponse res))) \<and>
    sint (InputTokens (resp_Usage (translateResponse res))) +
      sint (OutputTokens (resp_Usage (translateResponse res))) < 2 ^ 63
      \<longrightarrow> sint (TotalTokens (resp_Usage (translateResponse res))) =
          sint (InputTokens (resp_Usage (translateResponse res))) +
          sint (OutputTokens (resp_Usage (translateResponse res))))"
proof (intro conjI impI)
  show "Candidates (translateResponse res) =
     map (\<lambda>c. translateCandidate c (msg_StopReason res)) (msg_Content res)"
    by (simp add: translateResponse_def)
next
  assume "sr = MessageStopReasonEndTurn"
  then show "cand_FinishReason (translateCandidate c sr) = FinishReasonStop"
    by (simp add: translateCandidate_def stop_reason_defs)
next
  assume "sr = MessageStopReasonMaxTokens"
  then show "cand_FinishReason (translateCandidate c sr) = FinishReasonLength"
    by (simp add: translateCandidate_def stop_reason_defs)
next
  assume "sr = MessageStopReasonStopSequence"
  then show "cand_FinishReason (translateCandidate c sr) = FinishReasonOther"
    by (simp add: translateCandidate_def stop_reason_defs)
next
  assume "sr = MessageStopReasonToolUse"
  then show "cand_FinishReason (translateCandidate c sr) = FinishReasonOther"
    by (simp add: translateCandidate_def stop_reason_defs)
next
  assume "sr \<noteq> MessageStopReasonEndTurn \<and> sr \<noteq> MessageStopReasonMaxTokens \<and>
    sr \<noteq> MessageStopReasonStopSequence \<and> sr \<noteq> MessageStopReasonToolUse"
  then show "cand_FinishReason (translateCandidate c sr) = FinishReasonUnknown"
    by (simp add: translateCandidate_def stop_reason_defs)
next
  show "TotalTokens (resp_Usage (translateResponse res)) =
     InputTokens (resp_Usage (translateResponse res)) +
     OutputTokens (resp_Usage (translateResponse res))"
    by (simp add: translateResponse_def)
next
  assume "- (2 ^ 63) \<le> sint (InputTokens (resp_Usage (translateResponse res))) +
                  sint (OutputTokens (resp_Usage (translateResponse res))) \<and>
    sint (InputTokens (resp_Usage (translateResponse res))) +
      sint (OutputTokens (resp_Usage (translateResponse res))) < 2 ^ 63"
  then have "sint (InputTokens (resp_Usage (translateResponse res)) +
                   OutputTokens (resp_Usage (translateResponse res))) =
      sint (InputTokens (resp_Usage (translateResponse res))) +
      sint (OutputTokens (resp_Usage (translateResponse res)))"
    by (intro sint_add_exact) simp_all
  then show "sint (TotalTokens (resp_Usage (translateResponse res))) =
          sint (InputTokens (resp_Usage (translateResponse res))) +
          sint (OutputTokens (resp_Usage (translateResponse res)))"
    by (simp add: translateResponse_def)
qed

theorem translateResponse_spec_witness:
  "map cand_FinishReason (Candidates (translateResponse
      \<lparr>msg_Content = [\<lparr>cb_Text = ''hi'', cb_Type = ''text''\<rparr>, \<lparr>cb_Text = ''there'', cb_Type = ''text''\<rparr>],
        msg_StopReason = MessageStopReasonMaxTokens,
        msg_Usage = \<lparr>usage_InputTokens = 12, usage_OutputTokens = 30\<rparr>\<rparr>))
     = [FinishReasonLength, FinishReasonLength] \<and>
   cand_FinishReason (translateCandidate \<lparr>cb_Text = ''hi'', cb_Type = ''text''\<rparr> ''refusal'')
     = FinishReasonUnknown \<and>
   sint (TotalTokens (resp_Usage (translateResponse
      \<lparr>msg_Content = [\<lparr>cb_Text = ''hi'', cb_Type = ''text''\<rparr>, \<lparr>cb_Text = ''there'', cb_Type = ''text''\<rparr>],
        msg_StopReason = MessageStopReasonMaxTokens,
        msg_Usage = \<lparr>usage_InputTokens = 12, usage_OutputTokens = 30\<rparr>\<rparr>))) = 42"
  using
    translateResponse_spec [of "\<lparr>msg_Content = [\<lparr>cb_Text = ''hi'', cb_Type = ''text''\<rparr>,
          \<lparr>cb_Text = ''there'', cb_Type = ''text''\<rparr>],
        msg_StopReason = MessageStopReasonMaxTokens,
        msg_Usage = \<lparr>usage_InputTokens = 12, usage_OutputTokens = 30\<rparr>\<rparr>"
        MessageStopReasonMaxTokens]
    translateResponse_spec [of _ "''refusal''" "\<lparr>cb_Text = ''hi'', cb_Type = ''text''\<rparr>"]
  by (simp add: translateResponse_def MessageStopReasonMaxTokens_def
      MessageStopReasonEndTurn_def MessageStopReasonStopSequence_def
      MessageStopReasonToolUse_def)

text \<open>
  C6 as stated fails on overflow: with \<open>2^63 - 1\<close> input tokens and one output token,
  the total reads \<open>- 2^63\<close>, which is not the sum \<open>2^63\<close> of the two counts.
\<close>

theorem translateResponse_total_counterexample:
  "sint (InputTokens (resp_Usage (translateResponse
      \<lparr>msg_Content = [], msg_StopReason = MessageStopReasonEndTurn,
        msg_Usage = \<lparr>usage_InputTokens = 0x7FFFFFFFFFFFFFFF, usage_OutputTokens = 1\<rparr>\<rparr>)))
     = 9223372036854775807 \<and>
   sint (OutputTokens (resp_Usage (translateResponse
      \<lparr>msg_Content = [], msg_StopReason = MessageStopReasonEndTurn,
        msg_Usage = \<lparr>usage_InputTokens = 0x7FFFFFFFFFFFFFFF, usage_OutputTokens = 1\<rparr>\<rparr>)))
     = 1 \<and>
   sint (TotalTokens (resp_Usage (translateResponse
      \<lparr>msg_Content = [], msg_StopReason = MessageStopReasonEndTurn,
        msg_Usage = \<lparr>usage_InputTokens = 0x7FFFFFFFFFFFFFFF, usage_OutputTokens = 1\<rparr>\<rparr>)))
     = - 9223372036854775808"
  by (simp add: translateResponse_def)

end
